theory Spec2Isabelle
  imports Complex_Main "HOL-Library.Word"
begin

section \<open>The image-classification endpoint of the FastAPI walkthrough\<close>

text \<open>
  The notebook's one piece of program logic is the handler
  \<^verbatim>\<open>
  model = models.resnet18(pretrained=True)
  model.eval()  # Set model to evaluation mode

  transform = transforms.Compose([
      transforms.Resize(256),
      transforms.CenterCrop(224),
      transforms.ToTensor(),
      transforms.Normalize(mean=[0.485, 0.456, 0.406], std=[0.229, 0.224, 0.225]),
  ])

  @app.post("/predict/")
  async def predict(file: UploadFile = File(...)):
      image_data = await file.read()
      image = Image.open(io.BytesIO(image_data))
      image = transform(image)
      image = image.unsqueeze(0)  # Add batch dimension

      with torch.no_grad():
          output = model(image)
          predicted_index = output.argmax(1).item()

      return JSONResponse(content={"predicted_class": predicted_index})
  \<close>
  It has no \<^verbatim>\<open>try\<close>, no \<^verbatim>\<open>if\<close> and no assignment to a global: every failure is an
  exception of a library call that leaves the handler, and the only state it touches is
  the module object \<^verbatim>\<open>model\<close> it calls.

  Exceptions are values of a sum type (\<open>Inl\<close> is a raised exception). The image codec,
  the resampling filter and the network are third-party code that the handler calls as
  black boxes; they are the fields of a record of collaborators. The size arithmetic of
  the torchvision transforms, the channel rule of \<^verbatim>\<open>Normalize\<close> and the tie rule of
  \<^verbatim>\<open>argmax\<close> decide what the handler returns, and are written out.
  Tensor entries and scores are real numbers: the rounding of 32-bit floats and
  not-a-number values are outside this development. Running out of memory is a failure
  of the collaborator that allocates.
\<close>

subsection \<open>Data\<close>

type_synonym byte = "8 word"

datatype exn =
  UnidentifiedImageError | OSError | ZeroDivisionError | OverflowError | MemoryError
  | TypeError | ValueError | IndexError | RuntimeError

text \<open>
  A Pillow image: its mode, its size as (width, height), and its pixels, read as
  \<^verbatim>\<open>getpixel((x, y))\<close> with one value for each band. The modes are the ones a PNG or
  JPEG file decodes to: the 8-bit modes with values in 0..255, the bilevel mode \<^verbatim>\<open>1\<close>
  with the values 0 and 255, and, for 16-bit greyscale, \<^verbatim>\<open>I;16\<close> or (in older versions
  of Pillow) the 32-bit mode \<^verbatim>\<open>I\<close>, both with values in 0..65535.
\<close>

datatype mode =
  Mode_1 | Mode_L | Mode_P | Mode_LA | Mode_I16 | Mode_I | Mode_RGB | Mode_RGBA | Mode_CMYK

fun getbands :: "mode \<Rightarrow> nat" where
  "getbands Mode_1 = 1"
| "getbands Mode_L = 1"
| "getbands Mode_P = 1"
| "getbands Mode_LA = 2"
| "getbands Mode_I16 = 1"
| "getbands Mode_I = 1"
| "getbands Mode_RGB = 3"
| "getbands Mode_RGBA = 4"
| "getbands Mode_CMYK = 4"

record image =
  im_mode :: mode
  im_size :: "nat \<times> nat"
  getpixel :: "nat \<times> nat \<Rightarrow> nat list"

text \<open>A tensor: its shape, its entries, read at a list of indices, and its element type.\<close>

datatype dtype = Float32 | Int16 | Int32

record tensor =
  shape :: "nat list"
  entry :: "nat list \<Rightarrow> real"
  dtype :: dtype

text \<open>The upload as FastAPI hands it to the handler.\<close>

record UploadFile =
  filename :: string
  content_type :: string
  file_data :: "byte list"

datatype body = Json "(string \<times> int) list" | PlainText string

record response =
  status_code :: nat
  body :: body

text \<open>
  The collaborators. \<open>decoder\<close> is Pillow's codec (an exception when no plugin
  identifies the stream or the data is broken), \<open>resample\<close> its bilinear filter (the pixels
  of the image scaled to a new size, or an exception, such as \<open>MemoryError\<close> when the new
  image cannot be allocated), \<open>pretrained\<close> the downloaded weights of type \<open>'w\<close>.
  A network with batch-normalisation layers computes two different functions:
  \<open>forward_eval\<close> in evaluation mode, which reads the weights only, and \<open>forward_train\<close> in
  training mode, where every call also replaces the running statistics stored with the
  weights (\<open>track_running_stats\<close>).
\<close>

record 'w libs =
  decoder :: "byte list \<Rightarrow> exn + image"
  resample :: "image \<Rightarrow> nat \<times> nat \<Rightarrow> exn + (nat \<times> nat \<Rightarrow> nat list)"
  pretrained :: 'w
  forward_eval :: "'w \<Rightarrow> tensor \<Rightarrow> exn + real list list"
  forward_train :: "'w \<Rightarrow> tensor \<Rightarrow> exn + real list list"
  track_running_stats :: "'w \<Rightarrow> tensor \<Rightarrow> 'w"

record 'w nn_module =
  params :: 'w
  training :: bool

text \<open>The globals of the module: the handler shares \<^verbatim>\<open>model\<close> with every other request.\<close>

record 'w process =
  model :: "'w nn_module"

subsection \<open>Process start\<close>

text \<open>\<^verbatim>\<open>models.resnet18(pretrained=True)\<close>: a new module is in training mode.\<close>

definition resnet18 :: "'w libs \<Rightarrow> 'w nn_module" where
  "resnet18 E = \<lparr>params = pretrained E, training = True\<rparr>"

text \<open>\<^verbatim>\<open>model.eval()\<close>\<close>

definition eval_mode :: "'w nn_module \<Rightarrow> 'w nn_module" where
  "eval_mode m = m\<lparr>training := False\<rparr>"

definition startup :: "'w libs \<Rightarrow> 'w process" where
  "startup E = \<lparr>model = eval_mode (resnet18 E)\<rparr>"

text \<open>
  \<^verbatim>\<open>model(image)\<close>: the output, and the module after the call.
\<close>

definition call_module ::
  "'w libs \<Rightarrow> 'w nn_module \<Rightarrow> tensor \<Rightarrow> (exn + real list list) \<times> 'w nn_module" where
  "call_module E m x =
     (if training m
      then (forward_train E (params m) x, m\<lparr>params := track_running_stats E (params m) x\<rparr>)
      else (forward_eval E (params m) x, m))"

subsection \<open>The transforms\<close>

text \<open>
  \<^verbatim>\<open>Image.open(io.BytesIO(image_data))\<close>. Pillow reads the header here and the pixels
  at the first use; nothing happens in between, so both failures are the decoder's.
\<close>

definition Image_open :: "'w libs \<Rightarrow> byte list \<Rightarrow> exn + image" where
  "Image_open E image_data = decoder E image_data"

text \<open>
  \<^verbatim>\<open>Resize(size)\<close> with an integer. The new size, as (height, width), is computed from
  the old one: the shorter edge becomes \<open>size\<close>, the longer one
  \<^verbatim>\<open>int(size * long / short)\<close>. The division is Python's float division, truncated;
  below \<open>2 ^ 53\<close>, so for every size an image file can declare, that is the integer
  quotient. An image without pixels divides by zero.
\<close>

definition compute_resized_output_size :: "nat \<times> nat \<Rightarrow> nat \<Rightarrow> exn + nat \<times> nat" where
  "compute_resized_output_size image_size sz =
     (let (h, w) = image_size;
          (short, long) = (if w \<le> h then (w, h) else (h, w))
      in if short = 0 then Inl ZeroDivisionError
         else
           let new_short = sz;
               new_long = (sz * long) div short;
               (new_w, new_h) = (if w \<le> h then (new_short, new_long) else (new_long, new_short))
           in Inr (new_h, new_w))"

text \<open>
  Pillow's \<^verbatim>\<open>img.resize((width, height), BILINEAR)\<close>. The two numbers are passed to C as
  32-bit integers: one above \<open>2 ^ 31 - 1\<close> is an \<open>OverflowError\<close>. After that the filter
  runs, and may fail itself.
\<close>

definition Image_resize :: "'w libs \<Rightarrow> image \<Rightarrow> nat \<times> nat \<Rightarrow> exn + image" where
  "Image_resize E img new_size =
     (let (new_w, new_h) = new_size
      in if new_w > 2147483647 \<or> new_h > 2147483647 then Inl OverflowError
         else (case resample E img (new_w, new_h) of
                 Inl e \<Rightarrow> Inl e
               | Inr px \<Rightarrow> Inr (img\<lparr>im_size := (new_w, new_h), getpixel := px\<rparr>)))"

text \<open>An image that already has the new size is returned as it is.\<close>

definition Resize :: "nat \<Rightarrow> 'w libs \<Rightarrow> image \<Rightarrow> exn + image" where
  "Resize sz E img =
     (let (w, h) = im_size img
      in case compute_resized_output_size (h, w) sz of
           Inl e \<Rightarrow> Inl e
         | Inr (new_h, new_w) \<Rightarrow>
             if (h, w) = (new_h, new_w) then Inr img else Image_resize E img (new_w, new_h))"

text \<open>\<^verbatim>\<open>int(round(n / 2.0))\<close>: Python rounds a half to the even neighbour.\<close>

definition round_half :: "nat \<Rightarrow> nat" where
  "round_half n =
     (if even n then n div 2 else if even (n div 2) then n div 2 else n div 2 + 1)"

text \<open>\<^verbatim>\<open>pad(img, [left, top, right, bottom], fill=0)\<close>\<close>

definition pad :: "nat \<times> nat \<times> nat \<times> nat \<Rightarrow> image \<Rightarrow> image" where
  "pad ltrb img =
     (let (l, t, r, b) = ltrb; (w, h) = im_size img
      in img\<lparr>im_size := (l + w + r, t + h + b),
              getpixel := (\<lambda>(x, y).
                 if l \<le> x \<and> x < l + w \<and> t \<le> y \<and> y < t + h
                 then getpixel img (x - l, y - t)
                 else replicate (getbands (im_mode img)) 0)\<rparr>)"

text \<open>\<^verbatim>\<open>crop(img, top, left, height, width)\<close>\<close>

definition crop :: "image \<Rightarrow> nat \<Rightarrow> nat \<Rightarrow> nat \<Rightarrow> nat \<Rightarrow> image" where
  "crop img crop_top crop_left crop_height crop_width =
     img\<lparr>im_size := (crop_width, crop_height),
         getpixel := (\<lambda>(x, y). getpixel img (x + crop_left, y + crop_top))\<rparr>"

text \<open>
  \<^verbatim>\<open>CenterCrop(size)\<close>: an image smaller than the crop is padded with zeros first, never
  refused.
\<close>

definition CenterCrop :: "nat \<Rightarrow> image \<Rightarrow> exn + image" where
  "CenterCrop sz img =
     (let crop_height = sz; crop_width = sz;
          (image_width, image_height) = im_size img;
          padded = (crop_width > image_width \<or> crop_height > image_height);
          padding_ltrb =
            (if crop_width > image_width then (crop_width - image_width) div 2 else 0,
             if crop_height > image_height then (crop_height - image_height) div 2 else 0,
             if crop_width > image_width then (crop_width - image_width + 1) div 2 else 0,
             if crop_height > image_height then (crop_height - image_height + 1) div 2 else 0);
          img1 = (if padded then pad padding_ltrb img else img);
          (image_width1, image_height1) = im_size img1
      in if padded \<and> crop_width = image_width1 \<and> crop_height = image_height1 then Inr img1
         else
           let crop_top = round_half (image_height1 - crop_height);
               crop_left = round_half (image_width1 - crop_width)
           in Inr (crop img1 crop_top crop_left crop_height crop_width))"

text \<open>
  \<^verbatim>\<open>ToTensor()\<close>: bands first, then rows, then columns. The pixels are read as unsigned
  bytes and divided by 255, which gives a float tensor (for mode \<^verbatim>\<open>1\<close> the bytes are
  0 and 1 and are multiplied by 255 first). The two 16-bit greyscale modes are read as
  32-bit and as 16-bit signed integers and stay integer tensors.
\<close>

definition ToTensor :: "image \<Rightarrow> exn + tensor" where
  "ToTensor pic =
     (let sh = [getbands (im_mode pic), snd (im_size pic), fst (im_size pic)];
          px = (\<lambda>idx. getpixel pic (idx ! 2, idx ! 1) ! (idx ! 0))
      in if im_mode pic = Mode_I
         then Inr \<lparr>shape = sh, entry = (\<lambda>idx. real (px idx)), dtype = Int32\<rparr>
         else if im_mode pic = Mode_I16
         then Inr \<lparr>shape = sh, entry = (\<lambda>idx. real_of_int (signed_take_bit 15 (int (px idx)))),
                   dtype = Int16\<rparr>
         else Inr \<lparr>shape = sh, entry = (\<lambda>idx. real (px idx) / 255), dtype = Float32\<rparr>)"

text \<open>
  \<^verbatim>\<open>Normalize(mean, std)\<close> is \<^verbatim>\<open>tensor.sub_(mean.view(-1, 1, 1)).div_(std.view(-1, 1, 1))\<close>
  on a copy. The subtraction is in place, so broadcasting may stretch \<open>mean\<close> (when it has
  one entry) but never the tensor: with three entries the tensor needs exactly three
  channels, and one channel is an error as much as four are. Before that, a tensor that
  is no image or has no float type is a \<open>TypeError\<close>.
\<close>

definition pick :: "real list \<Rightarrow> nat \<Rightarrow> real" where
  "pick v c = (if length v = 1 then v ! 0 else v ! c)"

definition Normalize :: "real list \<Rightarrow> real list \<Rightarrow> tensor \<Rightarrow> exn + tensor" where
  "Normalize mean std t =
     (if length (shape t) < 2 then Inl TypeError
      else if dtype t \<noteq> Float32 then Inl TypeError
      else if length (shape t) < 3 then Inl ValueError
      else if 0 \<in> set std then Inl ValueError
      else
        let d = length (shape t) - 3; C = shape t ! d
        in if \<not> (length mean = C \<or> length mean = 1) then Inl RuntimeError
           else if \<not> (length std = C \<or> length std = 1) then Inl RuntimeError
           else Inr (t\<lparr>entry := (\<lambda>idx. (entry t idx - pick mean (idx ! d)) / pick std (idx ! d))\<rparr>))"

text \<open>\<^verbatim>\<open>Compose\<close> runs the steps in order; an exception ends it.\<close>

definition and_then :: "exn + 'a \<Rightarrow> ('a \<Rightarrow> exn + 'b) \<Rightarrow> exn + 'b" where
  "and_then r f = (case r of Inl e \<Rightarrow> Inl e | Inr x \<Rightarrow> f x)"

definition transform :: "'w libs \<Rightarrow> image \<Rightarrow> exn + tensor" where
  "transform E img =
     and_then (and_then (and_then (Resize 256 E img) (CenterCrop 224)) ToTensor)
       (Normalize [0.485, 0.456, 0.406] [0.229, 0.224, 0.225])"

text \<open>\<^verbatim>\<open>image.unsqueeze(0)\<close>\<close>

definition unsqueeze0 :: "tensor \<Rightarrow> tensor" where
  "unsqueeze0 t = \<lparr>shape = 1 # shape t, entry = (\<lambda>idx. entry t (tl idx)), dtype = dtype t\<rparr>"

subsection \<open>Arg-max\<close>

text \<open>
  \<^verbatim>\<open>output.argmax(1)\<close> gives, for each row, the index of the first maximal value: a
  scan that replaces the best index only on a strictly larger score. A row without
  entries is an error.
\<close>

fun argmax_loop :: "real list \<Rightarrow> nat \<Rightarrow> real \<Rightarrow> nat \<Rightarrow> nat" where
  "argmax_loop [] j best best_j = best_j"
| "argmax_loop (x # xs) j best best_j =
     (if best < x then argmax_loop xs (Suc j) x j else argmax_loop xs (Suc j) best best_j)"

definition argmax_row :: "real list \<Rightarrow> exn + nat" where
  "argmax_row row = (case row of [] \<Rightarrow> Inl IndexError | x # xs \<Rightarrow> Inr (argmax_loop xs 1 x 0))"

fun argmax1 :: "real list list \<Rightarrow> exn + nat list" where
  "argmax1 [] = Inr []"
| "argmax1 (row # rows) =
     (case argmax_row row of
        Inl e \<Rightarrow> Inl e
      | Inr i \<Rightarrow> (case argmax1 rows of Inl e \<Rightarrow> Inl e | Inr is \<Rightarrow> Inr (i # is)))"

text \<open>\<^verbatim>\<open>.item()\<close>: the value of a tensor with exactly one element.\<close>

definition item :: "nat list \<Rightarrow> exn + int" where
  "item v = (case v of [i] \<Rightarrow> Inr (int i) | _ \<Rightarrow> Inl RuntimeError)"

subsection \<open>The handler\<close>

definition JSONResponse :: "(string \<times> int) list \<Rightarrow> response" where
  "JSONResponse content = \<lparr>status_code = 200, body = Json content\<rparr>"

text \<open>
  The block under \<^verbatim>\<open>torch.no_grad()\<close> and the \<^verbatim>\<open>return\<close>: the forward pass, the arg-max
  and the response. The module the call leaves behind is the new global.
\<close>

definition infer :: "'w libs \<Rightarrow> 'w process \<Rightarrow> tensor \<Rightarrow> (exn + response) \<times> 'w process" where
  "infer E s batch =
     (case call_module E (model s) batch of
        (Inl e, m) \<Rightarrow> (Inl e, s\<lparr>model := m\<rparr>)
      | (Inr output, m) \<Rightarrow>
          (case and_then (argmax1 output) item of
             Inl e \<Rightarrow> (Inl e, s\<lparr>model := m\<rparr>)
           | Inr predicted_index \<Rightarrow>
               (Inr (JSONResponse [(''predicted_class'', predicted_index)]), s\<lparr>model := m\<rparr>)))"

definition predict :: "'w libs \<Rightarrow> 'w process \<Rightarrow> UploadFile \<Rightarrow> (exn + response) \<times> 'w process" where
  "predict E s upload =
     (let image_data = file_data upload
      in case Image_open E image_data of
           Inl e \<Rightarrow> (Inl e, s)
         | Inr img \<Rightarrow>
             (case transform E img of
                Inl e \<Rightarrow> (Inl e, s)
              | Inr t \<Rightarrow> infer E s (unsqueeze0 t)))"

text \<open>
  What the client sees: the framework answers an exception that left the handler with
  status 500 and a plain-text body.
\<close>

definition ServerErrorMiddleware :: "exn + response \<Rightarrow> response" where
  "ServerErrorMiddleware r =
     (case r of
        Inl e \<Rightarrow> \<lparr>status_code = 500, body = PlainText ''Internal Server Error''\<rparr>
      | Inr resp \<Rightarrow> resp)"

text \<open>The process after a sequence of requests, handled one after the other.\<close>

fun run_requests :: "'w libs \<Rightarrow> 'w process \<Rightarrow> UploadFile list \<Rightarrow> 'w process" where
  "run_requests E s [] = s"
| "run_requests E s (u # us) = run_requests E (snd (predict E s u)) us"

subsection \<open>A concrete set of collaborators\<close>

text \<open>
  Concrete inputs for the examples below. The four payloads are complete PNG files of one
  pixel each (8-bit RGB, greyscale and RGBA, and 16-bit greyscale); \<open>sample_decoder\<close>
  gives the image Pillow decodes each of them to and the exception it raises for a stream
  it cannot identify, such as the empty one. Scaling a one-pixel image gives a constant image under any filter, so
  \<open>nearest\<close> agrees with the bilinear filter there. The stand-in for the network scores
  three classes by the three channel values of the top-left pixel.
\<close>

definition png_1x1_rgb :: "byte list" where
  "png_1x1_rgb =
     [0x89, 0x50, 0x4E, 0x47, 0x0D, 0x0A, 0x1A, 0x0A, 0x00, 0x00, 0x00, 0x0D, 0x49, 0x48, 0x44, 0x52,
      0x00, 0x00, 0x00, 0x01, 0x00, 0x00, 0x00, 0x01, 0x08, 0x02, 0x00, 0x00, 0x00, 0x90, 0x77, 0x53,
      0xDE, 0x00, 0x00, 0x00, 0x0C, 0x49, 0x44, 0x41, 0x54, 0x78, 0xDA, 0x63, 0x38, 0x91, 0x62, 0x04,
      0x00, 0x03, 0x56, 0x01, 0x5F, 0xD6, 0xEA, 0x57, 0xFE, 0x00, 0x00, 0x00, 0x00, 0x49, 0x45, 0x4E,
      0x44, 0xAE, 0x42, 0x60, 0x82]"

definition png_1x1_gray :: "byte list" where
  "png_1x1_gray =
     [0x89, 0x50, 0x4E, 0x47, 0x0D, 0x0A, 0x1A, 0x0A, 0x00, 0x00, 0x00, 0x0D, 0x49, 0x48, 0x44, 0x52,
      0x00, 0x00, 0x00, 0x01, 0x00, 0x00, 0x00, 0x01, 0x08, 0x00, 0x00, 0x00, 0x00, 0x3A, 0x7E, 0x9B,
      0x55, 0x00, 0x00, 0x00, 0x0A, 0x49, 0x44, 0x41, 0x54, 0x78, 0xDA, 0x63, 0x68, 0x00, 0x00, 0x00,
      0x82, 0x00, 0x81, 0xDA, 0x45, 0x08, 0x3B, 0x00, 0x00, 0x00, 0x00, 0x49, 0x45, 0x4E, 0x44, 0xAE,
      0x42, 0x60, 0x82]"

definition png_1x1_rgba :: "byte list" where
  "png_1x1_rgba =
     [0x89, 0x50, 0x4E, 0x47, 0x0D, 0x0A, 0x1A, 0x0A, 0x00, 0x00, 0x00, 0x0D, 0x49, 0x48, 0x44, 0x52,
      0x00, 0x00, 0x00, 0x01, 0x00, 0x00, 0x00, 0x01, 0x08, 0x06, 0x00, 0x00, 0x00, 0x1F, 0x15, 0xC4,
      0x89, 0x00, 0x00, 0x00, 0x0D, 0x49, 0x44, 0x41, 0x54, 0x78, 0xDA, 0x63, 0x38, 0x91, 0x62, 0xF4,
      0x1F, 0x00, 0x05, 0xB4, 0x02, 0x5E, 0xC0, 0x64, 0xE9, 0xDB, 0x00, 0x00, 0x00, 0x00, 0x49, 0x45,
      0x4E, 0x44, 0xAE, 0x42, 0x60, 0x82]"

definition png_1x1_gray16 :: "byte list" where
  "png_1x1_gray16 =
     [0x89, 0x50, 0x4E, 0x47, 0x0D, 0x0A, 0x1A, 0x0A, 0x00, 0x00, 0x00, 0x0D, 0x49, 0x48, 0x44, 0x52,
      0x00, 0x00, 0x00, 0x01, 0x00, 0x00, 0x00, 0x01, 0x10, 0x00, 0x00, 0x00, 0x00, 0x6A, 0xEE, 0x47,
      0x16, 0x00, 0x00, 0x00, 0x0B, 0x49, 0x44, 0x41, 0x54, 0x78, 0xDA, 0x63, 0x10, 0x32, 0x01, 0x00,
      0x00, 0x5B, 0x00, 0x47, 0x05, 0x5F, 0x6C, 0x82, 0x00, 0x00, 0x00, 0x00, 0x49, 0x45, 0x4E, 0x44,
      0xAE, 0x42, 0x60, 0x82]"

definition solid :: "mode \<Rightarrow> nat list \<Rightarrow> image" where
  "solid m px = \<lparr>im_mode = m, im_size = (1, 1), getpixel = (\<lambda>xy. px)\<rparr>"

definition sample_decoder :: "byte list \<Rightarrow> exn + image" where
  "sample_decoder data =
     (if data = png_1x1_rgb then Inr (solid Mode_RGB [200, 100, 50])
      else if data = png_1x1_gray then Inr (solid Mode_L [128])
      else if data = png_1x1_rgba then Inr (solid Mode_RGBA [200, 100, 50, 255])
      else if data = png_1x1_gray16 then Inr (solid Mode_I16 [4660])
      else Inl UnidentifiedImageError)"

definition nearest :: "image \<Rightarrow> nat \<times> nat \<Rightarrow> exn + (nat \<times> nat \<Rightarrow> nat list)" where
  "nearest img new_size =
     Inr (\<lambda>(x, y). getpixel img ((x * fst (im_size img)) div fst new_size,
                                (y * snd (im_size img)) div snd new_size))"

definition top_left_scores :: "tensor \<Rightarrow> exn + real list list" where
  "top_left_scores x = Inr [[entry x [0, 0, 0, 0], entry x [0, 1, 0, 0], entry x [0, 2, 0, 0]]]"

definition sample_libs :: "nat libs" where
  "sample_libs =
     \<lparr>decoder = sample_decoder, resample = nearest, pretrained = 0,
      forward_eval = (\<lambda>w. top_left_scores), forward_train = (\<lambda>w. top_left_scores),
      track_running_stats = (\<lambda>w x. Suc w)\<rparr>"

definition post_file :: "byte list \<Rightarrow> UploadFile" where
  "post_file data = \<lparr>filename = ''upload.png'', content_type = ''image/png'', file_data = data\<rparr>"

text \<open>A second stand-in for the network, with two equal largest scores.\<close>

definition tie_scores :: "tensor \<Rightarrow> exn + real list list" where
  "tie_scores x = Inr [[0.25, 0.75, 0.5, 0.75]]"

definition tie_libs :: "nat libs" where
  "tie_libs = sample_libs\<lparr>forward_eval := (\<lambda>w. tie_scores)\<rparr>"

text \<open>A strip one pixel wide, as a PNG file can declare it.\<close>

definition tall_strip :: image where
  "tall_strip = \<lparr>im_mode = Mode_RGB, im_size = (1, 8388608), getpixel = (\<lambda>xy. [200, 100, 50])\<rparr>"

lemmas unfold_all =
  predict_def infer_def transform_def Resize_def CenterCrop_def ToTensor_def Normalize_def
  and_then_def unsqueeze0_def argmax_row_def item_def JSONResponse_def call_module_def startup_def
  eval_mode_def resnet18_def Image_open_def sample_libs_def sample_decoder_def solid_def nearest_def
  top_left_scores_def post_file_def pad_def crop_def round_half_def pick_def
  png_1x1_rgb_def png_1x1_gray_def png_1x1_rgba_def png_1x1_gray16_def ServerErrorMiddleware_def
  compute_resized_output_size_def Image_resize_def

section \<open>Properties\<close>

subsection \<open>Arg-max, frame and geometry lemmas\<close>

lemma argmax_loop_first_max:
  assumes "length pre = j" and "bj < j" and "pre ! bj = b"
    and "\<forall>k<j. pre ! k \<le> b" and "\<forall>k<bj. pre ! k < b"
  shows "argmax_loop xs j b bj < length (pre @ xs)
       \<and> (\<forall>k<length (pre @ xs). (pre @ xs) ! k \<le> (pre @ xs) ! argmax_loop xs j b bj)
       \<and> (\<forall>k<argmax_loop xs j b bj. (pre @ xs) ! k < (pre @ xs) ! argmax_loop xs j b bj)"
  using assms
proof (induction xs arbitrary: pre j b bj)
  case Nil
  then show ?case by auto
next
  case (Cons x xs)
  let ?pre = "pre @ [x]"
  have len: "length ?pre = Suc j" using Cons.prems(1) by simp
  show ?case
  proof (cases "b < x")
    case True
    have a: "j < Suc j" by simp
    have b: "?pre ! j = x" using Cons.prems(1) by (simp add: nth_append)
    have c: "\<forall>k<Suc j. ?pre ! k \<le> x"
      using Cons.prems(1,4) True by (auto simp: nth_append less_Suc_eq)
    have d: "\<forall>k<j. ?pre ! k < x"
      using Cons.prems(1,4) True by (auto simp: nth_append)
    from Cons.IH[OF len a b c d] True show ?thesis by simp
  next
    case False
    have a: "bj < Suc j" using Cons.prems(2) by simp
    have b: "?pre ! bj = b" using Cons.prems(1,2,3) by (simp add: nth_append)
    have c: "\<forall>k<Suc j. ?pre ! k \<le> b"
      using Cons.prems(1,4) False by (auto simp: nth_append less_Suc_eq)
    have d: "\<forall>k<bj. ?pre ! k < b"
      using Cons.prems(1,2,5) by (auto simp: nth_append)
    from Cons.IH[OF len a b c d] False show ?thesis by simp
  qed
qed

lemma argmax_row_first_max:
  assumes "argmax_row row = Inr i"
  shows "i < length row \<and> (\<forall>k<length row. row ! k \<le> row ! i) \<and> (\<forall>k<i. row ! k < row ! i)"
proof (cases row)
  case Nil
  with assms show ?thesis by (simp add: argmax_row_def)
next
  case (Cons x xs)
  with assms have i: "i = argmax_loop xs 1 x 0" by (simp add: argmax_row_def)
  have "argmax_loop xs 1 x 0 < length ([x] @ xs)
       \<and> (\<forall>k<length ([x] @ xs). ([x] @ xs) ! k \<le> ([x] @ xs) ! argmax_loop xs 1 x 0)
       \<and> (\<forall>k<argmax_loop xs 1 x 0. ([x] @ xs) ! k < ([x] @ xs) ! argmax_loop xs 1 x 0)"
    by (rule argmax_loop_first_max) simp_all
  with i Cons show ?thesis by simp
qed


lemma argmax1_Nil: "argmax1 rows = Inr [] \<Longrightarrow> rows = []"
  by (cases rows) (auto split: sum.splits)

lemma argmax1_single:
  assumes "argmax1 out = Inr [i]"
  shows "\<exists>row. out = [row] \<and> argmax_row row = Inr i"
proof (cases out)
  case Nil
  with assms show ?thesis by simp
next
  case (Cons row rows)
  with assms have "argmax_row row = Inr i" and "argmax1 rows = Inr []"
    by (auto split: sum.splits)
  with Cons show ?thesis by (simp add: argmax1_Nil)
qed

lemma item_Inr: "item v = Inr p \<Longrightarrow> \<exists>i. v = [i] \<and> p = int i"
  by (auto simp: item_def split: list.splits)

lemma call_module_eval: "\<not> training m \<Longrightarrow> call_module E m x = (forward_eval E (params m) x, m)"
  by (simp add: call_module_def)

lemma infer_frame: "\<not> training (model s) \<Longrightarrow> snd (infer E s x) = s"
  by (simp add: infer_def call_module_eval split: sum.splits)

lemma predict_frame: "\<not> training (model s) \<Longrightarrow> snd (predict E s u) = s"
  by (simp add: predict_def infer_frame split: sum.splits)

lemma run_requests_frame: "\<not> training (model s) \<Longrightarrow> run_requests E s reqs = s"
  by (induction reqs) (simp_all add: predict_frame)

lemma startup_eval: "\<not> training (model (startup E))"
  by (simp add: startup_def eval_mode_def resnet18_def)

lemma Resize_zero:
  "fst (im_size img) = 0 \<or> snd (im_size img) = 0 \<Longrightarrow> Resize sz E img = Inl ZeroDivisionError"
  by (cases "im_size img") (auto simp: Resize_def compute_resized_output_size_def)

lemma scaled_long_edge: "0 < a \<Longrightarrow> a \<le> b \<Longrightarrow> (256::nat) \<le> (256 * b) div a"
proof -
  assume a: "0 < a" and ab: "a \<le> b"
  have "(256 * a) div a \<le> (256 * b) div a" using ab by (intro div_le_mono) simp
  with a show ?thesis by simp
qed

lemma compute_size_ok:
  assumes "0 < w" and "0 < h"
  shows "\<exists>nh nw. compute_resized_output_size (h, w) 256 = Inr (nh, nw)
           \<and> 256 \<le> nw \<and> 256 \<le> nh \<and> min nw nh = 256
           \<and> max nw nh = (256 * max w h) div min w h"
proof (cases "w \<le> h")
  case True
  with assms have "256 \<le> (256 * h) div w" by (simp add: scaled_long_edge)
  with True assms show ?thesis
    by (simp add: compute_resized_output_size_def Let_def max_def min_def)
next
  case False
  with assms have "256 \<le> (256 * w) div h" by (simp add: scaled_long_edge)
  with False assms show ?thesis
    by (simp add: compute_resized_output_size_def Let_def max_def min_def)
qed

lemma Image_resize_Inr:
  "Image_resize E img (nw, nh) = Inr r \<Longrightarrow> im_size r = (nw, nh) \<and> im_mode r = im_mode img"
  by (auto simp: Image_resize_def split: if_splits sum.splits)

lemma Resize_Inr:
  assumes "Resize 256 E img = Inr r"
  shows "im_mode r = im_mode img \<and> 256 \<le> fst (im_size r) \<and> 256 \<le> snd (im_size r)
       \<and> min (fst (im_size r)) (snd (im_size r)) = 256"
proof -
  obtain w h where wh: "im_size img = (w, h)" by (cases "im_size img")
  have "\<not> (fst (im_size img) = 0 \<or> snd (im_size img) = 0)"
  proof
    assume "fst (im_size img) = 0 \<or> snd (im_size img) = 0"
    from Resize_zero[OF this, of 256 E] assms show False by simp
  qed
  with wh have pos: "0 < w" "0 < h" by simp_all
  from compute_size_ok[OF pos] obtain nh nw
    where n: "compute_resized_output_size (h, w) 256 = Inr (nh, nw)"
      "256 \<le> nw" "256 \<le> nh" "min nw nh = 256" by blast
  show ?thesis
  proof (cases "(h, w) = (nh, nw)")
    case True
    with assms wh n(1) have "r = img" by (simp add: Resize_def)
    with True wh n show ?thesis by simp
  next
    case False
    with assms wh n(1) have "Image_resize E img (nw, nh) = Inr r"
      by (auto simp: Resize_def split: if_splits)
    from Image_resize_Inr[OF this] n show ?thesis by simp
  qed
qed


lemma tall_strip_overflows: "transform E tall_strip = Inl OverflowError"
  by (simp add: transform_def and_then_def Resize_def compute_resized_output_size_def
      Image_resize_def tall_strip_def)

lemma CenterCrop_ok:
  assumes "224 \<le> fst (im_size r)" and "224 \<le> snd (im_size r)"
  shows "\<exists>c. CenterCrop 224 r = Inr c \<and> im_size c = (224, 224) \<and> im_mode c = im_mode r"
  using assms by (cases "im_size r") (auto simp: CenterCrop_def Let_def crop_def)

lemma resize_crop_ok:
  assumes "Resize 256 E img = Inr r"
  shows "\<exists>c. and_then (Resize 256 E img) (CenterCrop 224) = Inr c \<and> CenterCrop 224 r = Inr c
           \<and> im_size c = (224, 224) \<and> im_mode c = im_mode img"
proof -
  from Resize_Inr[OF assms] have r: "im_mode r = im_mode img"
    "224 \<le> fst (im_size r)" "224 \<le> snd (im_size r)" by simp_all
  from CenterCrop_ok[OF r(2,3)] r(1) assms show ?thesis by (auto simp: and_then_def)
qed


lemma transform_unfold:
  assumes "and_then (Resize 256 E img) (CenterCrop 224) = Inr c" and "im_size c = (224, 224)"
  shows "transform E img =
    (if im_mode c = Mode_I \<or> im_mode c = Mode_I16 then Inl TypeError
     else if getbands (im_mode c) = 3
     then Inr \<lparr>shape = [3, 224, 224],
               entry = (\<lambda>idx. (real (getpixel c (idx ! 2, idx ! 1) ! (idx ! 0)) / 255
                            - [0.485, 0.456, 0.406] ! (idx ! 0)) / [0.229, 0.224, 0.225] ! (idx ! 0)),
               dtype = Float32\<rparr>
     else Inl RuntimeError)"
  using assms by (simp add: transform_def and_then_def ToTensor_def Normalize_def pick_def Let_def)

lemma transform_zero:
  "fst (im_size img) = 0 \<or> snd (im_size img) = 0 \<Longrightarrow> transform E img = Inl ZeroDivisionError"
  by (simp add: transform_def Resize_zero and_then_def)


lemma infer_Inr:
  assumes "fst (infer E s x) = Inr resp"
  shows "\<exists>scores i. fst (call_module E (model s) x) = Inr [scores] \<and> argmax_row scores = Inr i
           \<and> resp = \<lparr>status_code = 200, body = Json [(''predicted_class'', int i)]\<rparr>"
proof -
  obtain out m where cm: "call_module E (model s) x = (out, m)"
    by (cases "call_module E (model s) x")
  with assms obtain rows p where out: "out = Inr rows"
    and p: "and_then (argmax1 rows) item = Inr p"
    and resp: "resp = JSONResponse [(''predicted_class'', p)]"
    by (auto simp: infer_def split: sum.splits)
  from p obtain v where v: "argmax1 rows = Inr v" "item v = Inr p"
    by (auto simp: and_then_def split: sum.splits)
  from item_Inr[OF v(2)] obtain i where i: "v = [i]" "p = int i" by blast
  from argmax1_single v(1) i(1) obtain row where "rows = [row]" "argmax_row row = Inr i" by blast
  with cm out resp i(2) show ?thesis by (simp add: JSONResponse_def)
qed

lemma predict_decoded:
  "decoder E (file_data upload) = Inr img \<Longrightarrow> transform E img = Inr t
     \<Longrightarrow> predict E s upload = infer E s (unsqueeze0 t)"
  by (simp add: predict_def Image_open_def)

lemma predict_transform_error:
  "decoder E (file_data upload) = Inr img \<Longrightarrow> transform E img = Inl e
     \<Longrightarrow> predict E s upload = (Inl e, s)"
  by (simp add: predict_def Image_open_def)

lemma predict_decode_error:
  "decoder E (file_data upload) = Inl e \<Longrightarrow> predict E s upload = (Inl e, s)"
  by (simp add: predict_def Image_open_def)


lemma transform_other_bands:
  assumes "getbands (im_mode img) \<noteq> 3"
  shows "\<exists>e. transform E img = Inl e"
proof (cases "Resize 256 E img")
  case (Inl e)
  then show ?thesis by (simp add: transform_def and_then_def)
next
  case (Inr r)
  from resize_crop_ok[OF Inr] obtain c
    where c: "and_then (Resize 256 E img) (CenterCrop 224) = Inr c" "im_size c = (224, 224)"
      "im_mode c = im_mode img" by blast
  from transform_unfold[OF c(1,2)] c(3) assms show ?thesis by simp
qed

lemma sixteen_bit_grey_raises:
  "predict sample_libs (startup sample_libs) (post_file png_1x1_gray16)
     = (Inl TypeError, startup sample_libs)"
  by (simp add: unfold_all)

subsection \<open>Failures of the decoder and of the geometry\<close>

text \<open>
  Claim C1, as the code has it. The handler catches nothing: when the decoder raises on
  the payload (the empty payload, bytes that are no image), that exception leaves
  \<open>predict\<close> unhandled, the process is as before, and the framework answers 500 with a
  plain-text body. No 4xx response and no JSON error body is built in the handler.
\<close>

theorem decode_failure_escapes_handler:
  assumes "decoder E (file_data upload) = Inl e"
  shows "predict E s upload = (Inl e, s)
       \<and> ServerErrorMiddleware (fst (predict E s upload))
           = \<lparr>status_code = 500, body = PlainText ''Internal Server Error''\<rparr>"
  using assms by (simp add: predict_decode_error ServerErrorMiddleware_def)

text \<open>
  The hypothesis of C1's theorem holds at the empty payload.
\<close>

theorem decode_failure_escapes_handler_witness:
  "decoder sample_libs (file_data (post_file [])) = Inl UnidentifiedImageError
   \<and> predict sample_libs (startup sample_libs) (post_file [])
       = (Inl UnidentifiedImageError, startup sample_libs)
   \<and> ServerErrorMiddleware (fst (predict sample_libs (startup sample_libs) (post_file [])))
       = \<lparr>status_code = 500, body = PlainText ''Internal Server Error''\<rparr>"
proof -
  have h: "decoder sample_libs (file_data (post_file [])) = Inl UnidentifiedImageError"
    by (simp add: sample_libs_def sample_decoder_def post_file_def png_1x1_rgb_def png_1x1_gray_def
        png_1x1_rgba_def png_1x1_gray16_def)
  from decode_failure_escapes_handler[OF h, of "startup sample_libs"] h show ?thesis by blast
qed

text \<open>
  Counterexample to C1 as stated: for the empty payload the handler returns no response
  at all. \<open>UnidentifiedImageError\<close> escapes it, and the client gets status 500, not a 4xx.
\<close>

theorem empty_payload_raises_unhandled:
  "fst (predict sample_libs (startup sample_libs) (post_file [])) = Inl UnidentifiedImageError
   \<and> status_code (ServerErrorMiddleware (fst (predict sample_libs (startup sample_libs) (post_file []))))
       = 500"
  by (simp add: unfold_all)




subsection \<open>Determinism and arg-max\<close>

text \<open>
  Claim C3. The handler is deterministic across calls: whatever requests the process has
  served since it started, a request with the same file bytes gets the same outcome (the
  same class index, or the same exception) as it would have got first. The outcome is a
  function of the bytes and of the model, and no earlier request changes the model.
\<close>

theorem repeated_calls_same_outcome:
  assumes "file_data u1 = file_data u2"
  shows "fst (predict E (run_requests E (startup E) reqs) u2) = fst (predict E (startup E) u1)"
proof -
  have "run_requests E (startup E) reqs = startup E"
    by (rule run_requests_frame) (rule startup_eval)
  moreover have "predict E (startup E) u2 = predict E (startup E) u1"
    using assms by (simp add: predict_def)
  ultimately show ?thesis by simp
qed

text \<open>
  C3 at a concrete input: the RGB file after an empty upload and a greyscale one.
\<close>

theorem repeated_calls_same_outcome_witness:
  "file_data (post_file png_1x1_rgb) = file_data (post_file png_1x1_rgb)
   \<and> fst (predict sample_libs
          (run_requests sample_libs (startup sample_libs) [post_file [], post_file png_1x1_gray])
          (post_file png_1x1_rgb))
     = fst (predict sample_libs (startup sample_libs) (post_file png_1x1_rgb))"
  using repeated_calls_same_outcome
    [of "post_file png_1x1_rgb" "post_file png_1x1_rgb" sample_libs
        "[post_file [], post_file png_1x1_gray]"]
  by simp

text \<open>
  Claim C4. Whenever the handler answers, the class index \<open>i\<close> in the body is the arg-max
  of the one row of scores that the forward pass returned for the tensor of this upload,
  ties going to the lowest index: no score is larger than \<open>scores ! i\<close>, and every score
  before \<open>i\<close> is strictly smaller.
\<close>

theorem predicted_index_is_first_maximum:
  assumes "fst (predict E s upload) = Inr resp"
  shows "\<exists>img t scores i. decoder E (file_data upload) = Inr img \<and> transform E img = Inr t
           \<and> fst (call_module E (model s) (unsqueeze0 t)) = Inr [scores]
           \<and> resp = \<lparr>status_code = 200, body = Json [(''predicted_class'', int i)]\<rparr>
           \<and> i < length scores
           \<and> (\<forall>j<length scores. scores ! j \<le> scores ! i)
           \<and> (\<forall>j<i. scores ! j < scores ! i)"
proof -
  from assms obtain img t where dt: "decoder E (file_data upload) = Inr img"
    "transform E img = Inr t" and inf: "fst (infer E s (unsqueeze0 t)) = Inr resp"
    by (auto simp: predict_def Image_open_def split: sum.splits)
  from infer_Inr[OF inf] obtain scores i
    where sc: "fst (call_module E (model s) (unsqueeze0 t)) = Inr [scores]"
      "argmax_row scores = Inr i"
      "resp = \<lparr>status_code = 200, body = Json [(''predicted_class'', int i)]\<rparr>" by blast
  from argmax_row_first_max[OF sc(2)] dt sc(1,3) show ?thesis by blast
qed

text \<open>
  C4 at a concrete input: with the scores 0.25, 0.75, 0.5, 0.75 the answer is class 1, the
  first of the two largest.
\<close>

theorem predicted_index_is_first_maximum_witness:
  "fst (predict tie_libs (startup tie_libs) (post_file png_1x1_rgb))
     = Inr \<lparr>status_code = 200, body = Json [(''predicted_class'', 1)]\<rparr>
   \<and> (\<exists>img t scores i. decoder tie_libs (file_data (post_file png_1x1_rgb)) = Inr img
           \<and> transform tie_libs img = Inr t
           \<and> fst (call_module tie_libs (model (startup tie_libs)) (unsqueeze0 t)) = Inr [scores]
           \<and> \<lparr>status_code = 200, body = Json [(''predicted_class'', 1)]\<rparr>
               = \<lparr>status_code = 200, body = Json [(''predicted_class'', int i)]\<rparr>
           \<and> i < length scores
           \<and> (\<forall>j<length scores. scores ! j \<le> scores ! i)
           \<and> (\<forall>j<i. scores ! j < scores ! i))"
proof -
  have h: "fst (predict tie_libs (startup tie_libs) (post_file png_1x1_rgb))
     = Inr \<lparr>status_code = 200, body = Json [(''predicted_class'', 1)]\<rparr>"
    by (simp add: unfold_all tie_libs_def tie_scores_def)
  from predicted_index_is_first_maximum[OF h] h show ?thesis by blast
qed

subsection \<open>Successful requests\<close>





text \<open>
  Claim C6. Whenever preprocessing hands a tensor to the model, its shape is
  1 x 3 x 224 x 224 and its entry for channel \<open>ch\<close>, row \<open>y\<close>, column \<open>x\<close> is
  \<open>(pixel / 255 - mean ! ch) / std ! ch\<close> for the pixel of the resized and cropped image,
  with the constants \<open>mean = [0.485, 0.456, 0.406]\<close> and \<open>std = [0.229, 0.224, 0.225]\<close>,
  whatever the request.
\<close>

theorem model_input_shape_and_normalization:
  assumes dec: "decoder E (file_data upload) = Inr img"
    and rc: "and_then (Resize 256 E img) (CenterCrop 224) = Inr c"
    and t: "transform E img = Inr t"
  shows "predict E s upload = infer E s (unsqueeze0 t)
       \<and> shape (unsqueeze0 t) = [1, 3, 224, 224]
       \<and> (\<forall>ch<3. \<forall>y<224. \<forall>x<224.
            entry (unsqueeze0 t) [0, ch, y, x]
              = (real (getpixel c (x, y) ! ch) / 255 - [0.485, 0.456, 0.406] ! ch)
                  / [0.229, 0.224, 0.225] ! ch)"
proof -
  from rc obtain r where r: "Resize 256 E img = Inr r"
    by (auto simp: and_then_def split: sum.splits)
  from resize_crop_ok[OF r] rc have sz: "im_size c = (224, 224)" by auto
  from transform_unfold[OF rc sz] t
  have teq: "t = \<lparr>shape = [3, 224, 224],
               entry = (\<lambda>idx. (real (getpixel c (idx ! 2, idx ! 1) ! (idx ! 0)) / 255
                            - [0.485, 0.456, 0.406] ! (idx ! 0)) / [0.229, 0.224, 0.225] ! (idx ! 0)),
               dtype = Float32\<rparr>"
    by (simp split: if_splits)
  have "shape (unsqueeze0 t) = [1, 3, 224, 224]"
    by (simp add: teq unsqueeze0_def)
  moreover have "entry (unsqueeze0 t) [0, ch, y, x]
              = (real (getpixel c (x, y) ! ch) / 255 - [0.485, 0.456, 0.406] ! ch)
                  / [0.229, 0.224, 0.225] ! ch" for ch y x
    by (simp add: teq unsqueeze0_def)
  ultimately show ?thesis using predict_decoded[OF dec t, of s] by simp
qed

text \<open>
  C6 at a concrete input: the green channel of the one-pixel RGB file.
\<close>

theorem model_input_shape_and_normalization_witness:
  "decoder sample_libs (file_data (post_file png_1x1_rgb)) = Inr (solid Mode_RGB [200, 100, 50])
   \<and> (\<exists>c t. and_then (Resize 256 sample_libs (solid Mode_RGB [200, 100, 50])) (CenterCrop 224) = Inr c
        \<and> getpixel c (0, 0) = [200, 100, 50]
        \<and> transform sample_libs (solid Mode_RGB [200, 100, 50]) = Inr t
        \<and> predict sample_libs (startup sample_libs) (post_file png_1x1_rgb)
             = infer sample_libs (startup sample_libs) (unsqueeze0 t)
        \<and> shape (unsqueeze0 t) = [1, 3, 224, 224]
        \<and> entry (unsqueeze0 t) [0, 1, 0, 0] = (100 / 255 - 0.456) / 0.224)"
proof -
  let ?img = "solid Mode_RGB [200, 100, 50]"
  define c where "c = projr (and_then (Resize 256 sample_libs ?img) (CenterCrop 224))"
  define t where "t = projr (transform sample_libs ?img)"
  have h: "decoder sample_libs (file_data (post_file png_1x1_rgb)) = Inr ?img"
    by (simp add: sample_libs_def sample_decoder_def post_file_def)
  have rc: "and_then (Resize 256 sample_libs ?img) (CenterCrop 224) = Inr c"
    by (simp add: c_def unfold_all)
  have px: "getpixel c (0, 0) = [200, 100, 50]"
    by (simp add: c_def unfold_all)
  have tr: "transform sample_libs ?img = Inr t"
    by (simp add: t_def unfold_all)
  from model_input_shape_and_normalization[OF h rc tr, of "startup sample_libs"]
  have "predict sample_libs (startup sample_libs) (post_file png_1x1_rgb)
             = infer sample_libs (startup sample_libs) (unsqueeze0 t)"
    and "shape (unsqueeze0 t) = [1, 3, 224, 224]"
    and "entry (unsqueeze0 t) [0, 1, 0, 0]
          = (real (getpixel c (0, 0) ! 1) / 255 - [0.485, 0.456, 0.406] ! 1) / [0.229, 0.224, 0.225] ! 1"
    by simp_all
  with h rc px tr show ?thesis by simp
qed

subsection \<open>Frame conditions\<close>

text \<open>
  Claim C7. The model is built once, by \<open>startup\<close>; the handler never builds one. After
  any sequence of requests the process is the one \<open>startup\<close> left: the weights are the
  pretrained ones and the module is in evaluation mode.
\<close>

theorem model_unchanged_by_requests:
  "run_requests E (startup E) reqs = startup E
   \<and> model (run_requests E (startup E) reqs) = \<lparr>params = pretrained E, training = False\<rparr>"
proof -
  have "run_requests E (startup E) reqs = startup E"
    by (rule run_requests_frame) (rule startup_eval)
  then show ?thesis by (simp add: startup_def eval_mode_def resnet18_def)
qed

text \<open>
  Claim C9. Two uploads with the same file bytes get the same outcome and leave the same
  process, whatever their file names and declared content types: the handler reads
  neither.
\<close>

theorem outcome_depends_on_bytes_only:
  assumes "file_data u1 = file_data u2"
  shows "predict E s u1 = predict E s u2"
  using assms by (simp add: predict_def)

text \<open>
  C9 at a concrete input: the same PNG bytes declared as a JPEG and as a text file.
\<close>

theorem outcome_depends_on_bytes_only_witness:
  "file_data \<lparr>filename = ''cat.jpeg'', content_type = ''image/jpeg'', file_data = png_1x1_rgb\<rparr>
     = file_data \<lparr>filename = ''notes.txt'', content_type = ''text/plain'', file_data = png_1x1_rgb\<rparr>
   \<and> predict sample_libs (startup sample_libs)
         \<lparr>filename = ''cat.jpeg'', content_type = ''image/jpeg'', file_data = png_1x1_rgb\<rparr>
     = predict sample_libs (startup sample_libs)
         \<lparr>filename = ''notes.txt'', content_type = ''text/plain'', file_data = png_1x1_rgb\<rparr>"
  using outcome_depends_on_bytes_only
    [of "\<lparr>filename = ''cat.jpeg'', content_type = ''image/jpeg'', file_data = png_1x1_rgb\<rparr>"
        "\<lparr>filename = ''notes.txt'', content_type = ''text/plain'', file_data = png_1x1_rgb\<rparr>"
        sample_libs "startup sample_libs"]
  by simp

text \<open>
  Claim C10. The handler answers with a class only for a payload that decodes to a
  three-band image. A payload that decodes to an image with any other number of bands
  (greyscale has one, RGBA four) raises some exception and leaves the process as it was,
  as the image is never converted to RGB: in \<open>Resize\<close> already, or else in \<open>Normalize\<close>.
\<close>

theorem prediction_only_for_three_bands:
  "(fst (predict E s upload) = Inr resp \<longrightarrow>
      (\<exists>img. decoder E (file_data upload) = Inr img \<and> getbands (im_mode img) = 3))
   \<and> (decoder E (file_data upload) = Inr img \<and> getbands (im_mode img) \<noteq> 3 \<longrightarrow>
        (\<exists>e. predict E s upload = (Inl e, s)))"
proof (intro conjI impI)
  assume ok: "fst (predict E s upload) = Inr resp"
  show "\<exists>img. decoder E (file_data upload) = Inr img \<and> getbands (im_mode img) = 3"
  proof (cases "decoder E (file_data upload)")
    case (Inl e)
    from predict_decode_error[OF this, of s] ok show ?thesis by simp
  next
    case (Inr im)
    have "getbands (im_mode im) = 3"
    proof (rule ccontr)
      assume "getbands (im_mode im) \<noteq> 3"
      from transform_other_bands[OF this, of E] obtain e where "transform E im = Inl e" by blast
      from predict_transform_error[OF Inr this, of s] ok show False by simp
    qed
    with Inr show ?thesis by simp
  qed
next
  assume "decoder E (file_data upload) = Inr img \<and> getbands (im_mode img) \<noteq> 3"
  then have d: "decoder E (file_data upload) = Inr img" and b: "getbands (im_mode img) \<noteq> 3"
    by simp_all
  from transform_other_bands[OF b, of E] obtain e where "transform E img = Inl e" by blast
  from predict_transform_error[OF d this, of s]
  show "\<exists>e. predict E s upload = (Inl e, s)" by blast
qed

text \<open>
  C10 at concrete inputs: the RGB file is answered; the 8-bit greyscale, the 16-bit
  greyscale and the RGBA file raise.
\<close>

theorem prediction_only_for_three_bands_witness:
  "fst (predict sample_libs (startup sample_libs) (post_file png_1x1_rgb))
     = Inr \<lparr>status_code = 200, body = Json [(''predicted_class'', 0)]\<rparr>
   \<and> (\<exists>img. decoder sample_libs (file_data (post_file png_1x1_rgb)) = Inr img
          \<and> getbands (im_mode img) = 3)
   \<and> decoder sample_libs (file_data (post_file png_1x1_gray)) = Inr (solid Mode_L [128])
   \<and> getbands (im_mode (solid Mode_L [128])) \<noteq> 3
   \<and> (\<exists>e. predict sample_libs (startup sample_libs) (post_file png_1x1_gray)
            = (Inl e, startup sample_libs))
   \<and> decoder sample_libs (file_data (post_file png_1x1_gray16)) = Inr (solid Mode_I16 [4660])
   \<and> getbands (im_mode (solid Mode_I16 [4660])) \<noteq> 3
   \<and> (\<exists>e. predict sample_libs (startup sample_libs) (post_file png_1x1_gray16)
            = (Inl e, startup sample_libs))
   \<and> decoder sample_libs (file_data (post_file png_1x1_rgba))
       = Inr (solid Mode_RGBA [200, 100, 50, 255])
   \<and> getbands (im_mode (solid Mode_RGBA [200, 100, 50, 255])) \<noteq> 3
   \<and> (\<exists>e. predict sample_libs (startup sample_libs) (post_file png_1x1_rgba)
            = (Inl e, startup sample_libs))"
proof -
  let ?s = "startup sample_libs"
  have ok: "fst (predict sample_libs ?s (post_file png_1x1_rgb))
     = Inr \<lparr>status_code = 200, body = Json [(''predicted_class'', 0)]\<rparr>"
    by (simp add: unfold_all)
  have g: "decoder sample_libs (file_data (post_file png_1x1_gray)) = Inr (solid Mode_L [128])"
    by (simp add: sample_libs_def sample_decoder_def post_file_def png_1x1_rgb_def
        png_1x1_gray_def)
  have gb: "getbands (im_mode (solid Mode_L [128])) \<noteq> 3" by (simp add: solid_def)
  have w: "decoder sample_libs (file_data (post_file png_1x1_gray16)) = Inr (solid Mode_I16 [4660])"
    by (simp add: sample_libs_def sample_decoder_def post_file_def png_1x1_rgb_def
        png_1x1_gray_def png_1x1_rgba_def png_1x1_gray16_def)
  have wb: "getbands (im_mode (solid Mode_I16 [4660])) \<noteq> 3" by (simp add: solid_def)
  have a: "decoder sample_libs (file_data (post_file png_1x1_rgba))
       = Inr (solid Mode_RGBA [200, 100, 50, 255])"
    by (simp add: sample_libs_def sample_decoder_def post_file_def png_1x1_rgb_def
        png_1x1_gray_def png_1x1_rgba_def)
  have ab: "getbands (im_mode (solid Mode_RGBA [200, 100, 50, 255])) \<noteq> 3"
    by (simp add: solid_def)
  from prediction_only_for_three_bands
    [of sample_libs ?s "post_file png_1x1_rgb"
        "\<lparr>status_code = 200, body = Json [(''predicted_class'', 0)]\<rparr>"] ok
  have 1: "\<exists>img. decoder sample_libs (file_data (post_file png_1x1_rgb)) = Inr img
          \<and> getbands (im_mode img) = 3" by blast
  from prediction_only_for_three_bands
    [of sample_libs ?s "post_file png_1x1_gray" _ "solid Mode_L [128]"] g gb
  have 2: "\<exists>e. predict sample_libs ?s (post_file png_1x1_gray) = (Inl e, ?s)" by blast
  from prediction_only_for_three_bands
    [of sample_libs ?s "post_file png_1x1_gray16" _ "solid Mode_I16 [4660]"] w wb
  have 3: "\<exists>e. predict sample_libs ?s (post_file png_1x1_gray16) = (Inl e, ?s)" by blast
  from prediction_only_for_three_bands
    [of sample_libs ?s "post_file png_1x1_rgba" _ "solid Mode_RGBA [200, 100, 50, 255]"] a ab
  have 4: "\<exists>e. predict sample_libs ?s (post_file png_1x1_rgba) = (Inl e, ?s)" by blast
  from ok 1 g gb 2 w wb 3 a ab 4 show ?thesis by blast
qed

end
